theory Spec2Isabelle
  imports Main
begin

section \<open>Python values and strings\<close>

text \<open>
  A Python \<open>str\<close> is modelled as a \<open>string\<close> (a list of characters), one \<open>char\<close> per
  code point; the model therefore covers the code points below 256.
  Values of type \<open>Any\<close> (request bodies, decoded JSON) are values of \<open>pyval\<close>.
  A float is carried as a mantissa and a binary exponent, or as one of the three special
  values; no modelled function computes with floats or compares them.
\<close>

datatype pyfloat = Finite int int | PosInf | NegInf | NaN

datatype pyval =
    PNone
  | PBool bool
  | PInt int
  | PFloat pyfloat
  | PStr string
  | PList "pyval list"
  | PDict "(string \<times> pyval) list"

text \<open>Truthiness of an optional string, as in \<open>not node.config.url\<close> and \<open>x or default\<close>.\<close>

definition truthy_str :: "string option \<Rightarrow> bool" where
  "truthy_str s = (case s of None \<Rightarrow> False | Some t \<Rightarrow> t \<noteq> [])"

text \<open>\<open>str(i)\<close> for a non-negative integer, as used by the f-strings over \<open>enumerate\<close>.\<close>

definition digit_char :: "nat \<Rightarrow> char" where
  "digit_char d = ''0123456789'' ! d"

fun str_nat :: "nat \<Rightarrow> string" where
  "str_nat n = (if n < 10 then [digit_char n] else str_nat (n div 10) @ [digit_char (n mod 10)])"

declare str_nat.simps [simp del]

text \<open>The apostrophe that the f-strings put around a node's display name.\<close>

abbreviation apos :: string where
  "apos \<equiv> [CHR 0x27]"

text \<open>An optional string inside an f-string: \<open>None\<close> is rendered as the text \<open>None\<close>.\<close>

definition fmt_opt :: "string option \<Rightarrow> string" where
  "fmt_opt s = (case s of None \<Rightarrow> ''None'' | Some t \<Rightarrow> t)"

section \<open>Data model (app/models/workflow.py)\<close>

datatype WorkflowNodeType =
    START | END | CLOUD_FUNCTION | CLOUD_RUN | PUBSUB_PUBLISH | PUBSUB_SUBSCRIBE
  | HTTP_REQUEST | CONDITION | PARALLEL | DELAY | ASSIGN | CALL | SWITCH | FOR_LOOP | TRY_CATCH

text \<open>
  The field \<open>method\<close> of the class is \<open>http_method\<close> here.
  The fields of \<open>WorkflowNodeConfig\<close> that the validator, the step compiler and the
  suggestion collector read. The remaining optional fields of the class (variables, call
  and switch settings, loop settings, try/catch steps, env vars, resource sizing) are read
  only by prompt and template builders, which are not modelled.
\<close>

record WorkflowNodeConfig =
  name :: string
  description :: "string option"
  function_name :: "string option"
  service_name :: "string option"
  topic_name :: "string option"
  subscription_name :: "string option"
  url :: "string option"
  http_method :: "string option"
  headers :: "(string \<times> string) list option"
  body :: "(string \<times> pyval) list option"
  condition :: "string option"
  delay_seconds :: "int option"
  ai_prompt :: "string option"

text \<open>
  \<open>position\<close> (two floats) and the two timestamps of \<open>WorkflowNode\<close> are left out:
  they are presentation data that no modelled function reads.
\<close>

record WorkflowNode =
  node_id :: string
  node_type :: WorkflowNodeType
  config :: WorkflowNodeConfig
  inputs :: "string list"
  outputs :: "string list"

record WorkflowConnection =
  conn_id :: string
  source_node_id :: string
  target_node_id :: string
  conn_condition :: "string option"

record WorkflowMetadata =
  meta_name :: string
  meta_description :: "string option"
  version :: string
  tags :: "string list"
  project_id :: "string option"
  region :: string

record Workflow =
  wf_id :: string
  metadata :: WorkflowMetadata
  nodes :: "WorkflowNode list"
  connections :: "WorkflowConnection list"

datatype exn =
    ValueError string
  | TypeError string
  | RuntimeError string
  | HTTPException nat string "string list"
  | HTTPExceptionStr nat string
  | JSONDecodeError string
  | OtherException string

text \<open>
  \<open>HTTPException n m is\<close> is \<open>HTTPException(status_code=n, detail={"message": m, "issues": is})\<close>;
  \<open>HTTPExceptionStr n d\<close> is \<open>HTTPException(status_code=n, detail=d)\<close> with a string detail.
\<close>

subsection \<open>The validator of the \<open>nodes\<close> field and the constructor\<close>

definition validate_nodes :: "WorkflowNode list \<Rightarrow> exn + WorkflowNode list" where
  "validate_nodes v =
     (if v = [] then Inl (ValueError ''Workflow must have at least one node'')
      else
        let start_nodes = filter (\<lambda>node. node_type node = START) v;
            end_nodes = filter (\<lambda>node. node_type node = END) v
        in if length start_nodes \<noteq> 1 then Inl (ValueError ''Workflow must have exactly one start node'')
           else if length end_nodes < 1 then Inl (ValueError ''Workflow must have at least one end node'')
           else Inr v)"

text \<open>
  Constructing a \<open>Workflow\<close> from field values runs the field validator; a \<open>ValueError\<close>
  raised there makes the construction fail.
\<close>

definition Workflow_init ::
  "string \<Rightarrow> WorkflowMetadata \<Rightarrow> WorkflowNode list \<Rightarrow> WorkflowConnection list \<Rightarrow> exn + Workflow" where
  "Workflow_init i m ns cs =
     (case validate_nodes ns of
        Inl e \<Rightarrow> Inl e
      | Inr v \<Rightarrow> Inr \<lparr>wf_id = i, metadata = m, nodes = v, connections = cs\<rparr>)"

section \<open>Graph validator (app/services/workflow_service.py)\<close>

definition validate_node_config :: "WorkflowNode \<Rightarrow> string list" where
  "validate_node_config node =
     (if node_type node = CLOUD_FUNCTION then
        (if \<not> truthy_str (function_name (config node))
         then [''Cloud Function node '' @ apos @ name (config node) @ apos @ '' missing function_name''] else [])
      else if node_type node = CLOUD_RUN then
        (if \<not> truthy_str (service_name (config node))
         then [''Cloud Run node '' @ apos @ name (config node) @ apos @ '' missing service_name''] else [])
      else if node_type node = PUBSUB_PUBLISH then
        (if \<not> truthy_str (topic_name (config node))
         then [''Pub/Sub Publish node '' @ apos @ name (config node) @ apos @ '' missing topic_name''] else [])
      else if node_type node = PUBSUB_SUBSCRIBE then
        (if \<not> truthy_str (subscription_name (config node))
         then [''Pub/Sub Subscribe node '' @ apos @ name (config node) @ apos @ '' missing subscription_name''] else [])
      else if node_type node = HTTP_REQUEST then
        (if \<not> truthy_str (url (config node))
         then [''HTTP Request node '' @ apos @ name (config node) @ apos @ '' missing url''] else [])
      else if node_type node = CONDITION then
        (if \<not> truthy_str (condition (config node))
         then [''Condition node '' @ apos @ name (config node) @ apos @ '' missing condition''] else [])
      else [])"

text \<open>The two \<open>for\<close> loops of \<open>validate_workflow\<close>, each appending to \<open>issues\<close>.\<close>

fun orphan_loop :: "string set \<Rightarrow> string set \<Rightarrow> WorkflowNode list \<Rightarrow> string list \<Rightarrow> string list" where
  "orphan_loop srcs tgts [] issues = issues"
| "orphan_loop srcs tgts (node # rest) issues =
     orphan_loop srcs tgts rest
       (if node_type node \<notin> set [START, END] then
          (if node_id node \<notin> tgts \<and> node_id node \<notin> srcs
           then issues @ [''Node '' @ apos @ name (config node) @ apos @ '' is not connected'']
           else issues)
        else issues)"

fun config_loop :: "WorkflowNode list \<Rightarrow> string list \<Rightarrow> string list" where
  "config_loop [] issues = issues"
| "config_loop (node # rest) issues = config_loop rest (issues @ validate_node_config node)"

definition validate_workflow :: "Workflow \<Rightarrow> string list" where
  "validate_workflow workflow =
     (let issues0 = [];
          start_nodes = filter (\<lambda>n. node_type n = START) (nodes workflow);
          end_nodes = filter (\<lambda>n. node_type n = END) (nodes workflow);
          issues1 = (if length start_nodes \<noteq> 1
                     then issues0 @ [''Workflow must have exactly one START node''] else issues0);
          issues2 = (if length end_nodes = 0
                     then issues1 @ [''Workflow must have at least one END node''] else issues1);
          connection_sources = set (map source_node_id (connections workflow));
          connection_targets = set (map target_node_id (connections workflow));
          issues3 = orphan_loop connection_sources connection_targets (nodes workflow) issues2
      in config_loop (nodes workflow) issues3)"

section \<open>The validate endpoint (app/api/v1/endpoints/workflows.py)\<close>

record ValidateResponse =
  workflow_id :: string
  is_valid :: bool
  issues :: "string list"
  message :: string

text \<open>
  What a route answers: the handler's return value (status 200), an \<open>HTTPException\<close>
  raised by the handler, or the framework's rejection of a body from which the declared
  parameter type could not be constructed (status 422), carrying the constructor's error.
\<close>

datatype 'a http_result =
    Response200 'a
  | Raised exn
  | RequestValidationError exn

text \<open>
  The handler body. The validator is a total function, so the \<open>except\<close> branch of the
  handler has no exception to catch.
\<close>

definition validate_workflow_handler :: "Workflow \<Rightarrow> ValidateResponse http_result" where
  "validate_workflow_handler workflow =
     (let issues = validate_workflow workflow;
          is_valid = (length issues = 0)
      in Response200 \<lparr>workflow_id = wf_id workflow, is_valid = is_valid, issues = issues,
           message = (if is_valid then ''Workflow is valid'' else ''Workflow has validation issues'')\<rparr>)"

text \<open>
  The route \<open>POST /validate\<close>: its parameter is declared as \<open>workflow: Workflow\<close>, so the
  body's fields go through the constructor before the handler runs.
\<close>

definition post_validate ::
  "string \<Rightarrow> WorkflowMetadata \<Rightarrow> WorkflowNode list \<Rightarrow> WorkflowConnection list
     \<Rightarrow> ValidateResponse http_result" where
  "post_validate i m ns cs =
     (case Workflow_init i m ns cs of
        Inl e \<Rightarrow> RequestValidationError e
      | Inr workflow \<Rightarrow> validate_workflow_handler workflow)"

section \<open>Step compiler (app/services/workflow_service.py)\<close>

text \<open>The one setting the compiler reads: \<open>GOOGLE_CLOUD_PROJECT: Optional[str]\<close>.\<close>

record Settings =
  GOOGLE_CLOUD_PROJECT :: "string option"

text \<open>\<open>x or default\<close> on optional values of the configuration.\<close>

definition or_str :: "string option \<Rightarrow> string \<Rightarrow> string" where
  "or_str x d = (if truthy_str x then the x else d)"

definition or_dict :: "(string \<times> 'a) list option \<Rightarrow> (string \<times> 'a) list" where
  "or_dict x = (case x of None \<Rightarrow> [] | Some kvs \<Rightarrow> kvs)"

definition or_int :: "int option \<Rightarrow> int \<Rightarrow> int" where
  "or_int x d = (case x of None \<Rightarrow> d | Some i \<Rightarrow> (if i = 0 then d else i))"

definition opt_str :: "string option \<Rightarrow> pyval" where
  "opt_str x = (case x of None \<Rightarrow> PNone | Some t \<Rightarrow> PStr t)"

definition node_to_workflow_step :: "Settings \<Rightarrow> WorkflowNode \<Rightarrow> pyval" where
  "node_to_workflow_step settings node =
     (if node_type node = CLOUD_FUNCTION then
        PDict [
          (''call'', PStr ''googleapis.cloudfunctions.v1.projects.locations.functions.call''),
          (''args'', PDict [
             (''name'', PStr (''projects/'' @ fmt_opt (GOOGLE_CLOUD_PROJECT settings)
                              @ ''/locations/'' @ fmt_opt (function_name (config node)))),
             (''data'', PStr ''${input}'')]),
          (''result'', PStr ''function_result'')]
      else if node_type node = HTTP_REQUEST then
        PDict [
          (''call'', PStr ''http.request''),
          (''args'', PDict [
             (''url'', opt_str (url (config node))),
             (''method'', PStr (or_str (http_method (config node)) ''GET'')),
             (''headers'', PDict (map (\<lambda>(k, v). (k, PStr v)) (or_dict (headers (config node))))),
             (''body'', PDict (or_dict (body (config node))))]),
          (''result'', PStr ''http_result'')]
      else if node_type node = CONDITION then
        PDict [
          (''switch'', PList [
             PDict [(''condition'', opt_str (condition (config node))), (''next'', PStr ''continue'')]]),
          (''next'', PStr ''end'')]
      else if node_type node = DELAY then
        PDict [
          (''call'', PStr ''sys.sleep''),
          (''args'', PDict [(''seconds'', PInt (or_int (delay_seconds (config node)) 1))])]
      else
        PDict [(''assign'', PList [PDict [(''result'', PStr (''Processed '' @ name (config node)))]])])"

text \<open>
  The loop \<open>for i, node in enumerate(workflow.nodes)\<close>: \<open>i\<close> is the running index,
  \<open>steps\<close> the list \<open>workflow_def["main"]["steps"]\<close> that the body appends to.
  Each appended step is a dictionary with a single key.
\<close>

fun steps_loop :: "Settings \<Rightarrow> nat \<Rightarrow> WorkflowNode list \<Rightarrow> pyval list \<Rightarrow> pyval list" where
  "steps_loop settings i [] steps = steps"
| "steps_loop settings i (node # rest) steps =
     (if node_type node = START then steps_loop settings (Suc i) rest steps
      else if node_type node = END then
        steps_loop settings (Suc i) rest
          (steps @ [PDict [(''end_step_'' @ str_nat i, PDict [(''return'', PStr ''${result}'')])]])
      else
        steps_loop settings (Suc i) rest
          (steps @ [PDict [(''step_'' @ str_nat i, node_to_workflow_step settings node)]]))"

definition workflow_steps :: "Settings \<Rightarrow> Workflow \<Rightarrow> pyval list" where
  "workflow_steps settings workflow = steps_loop settings 0 (nodes workflow) []"

definition workflow_def :: "Settings \<Rightarrow> Workflow \<Rightarrow> pyval" where
  "workflow_def settings workflow =
     PDict [(''main'', PDict [(''steps'', PList (workflow_steps settings workflow))])]"

text \<open>
  \<open>yaml.dump(workflow_def, default_flow_style=False, sort_keys=False)\<close> is the YAML
  library's serialiser: a function of the value, taken as the parameter \<open>dump\<close>.
\<close>

definition generate_basic_workflow_yaml :: "(pyval \<Rightarrow> string) \<Rightarrow> Settings \<Rightarrow> Workflow \<Rightarrow> string" where
  "generate_basic_workflow_yaml dump settings workflow = dump (workflow_def settings workflow)"

subsection \<open>The validator and the compiler over a heap of objects\<close>

text \<open>
  To speak about mutation, objects are put at addresses of a heap. The workflow passed to
  a call and the settings of the service are objects of the heap. The list \<open>issues\<close> of
  \<open>validate_workflow\<close> and the list \<open>workflow_def["main"]["steps"]\<close> of
  \<open>_generate_basic_workflow_yaml\<close> are allocated in it by the call, and \<open>append\<close> and
  \<open>extend\<close> update the list found at the address they are given; on any other object they
  raise, which is the result \<open>None\<close>. A workflow is held as one value: an assignment to any
  of its attributes, nodes or connections would change the object at its address. The loops
  go through the node list read when the call starts; their bodies assign to nothing but
  the allocated list.
\<close>

type_synonym addr = nat

datatype obj =
    WorkflowObj Workflow
  | SettingsObj Settings
  | StrListObj "string list"
  | ListObj "pyval list"

record heap =
  cells :: "addr \<Rightarrow> obj option"
  next_free :: addr

definition set_cell :: "addr \<Rightarrow> obj \<Rightarrow> heap \<Rightarrow> heap" where
  "set_cell a v h = h\<lparr>cells := (cells h)(a \<mapsto> v)\<rparr>"

definition alloc :: "obj \<Rightarrow> heap \<Rightarrow> addr \<times> heap" where
  "alloc v h = (next_free h, (set_cell (next_free h) v h)\<lparr>next_free := Suc (next_free h)\<rparr>)"

definition str_list_extend :: "addr \<Rightarrow> string list \<Rightarrow> heap \<Rightarrow> heap option" where
  "str_list_extend a xs h =
     (case cells h a of
        Some (StrListObj ys) \<Rightarrow> Some (set_cell a (StrListObj (ys @ xs)) h)
      | _ \<Rightarrow> None)"

definition str_list_append :: "addr \<Rightarrow> string \<Rightarrow> heap \<Rightarrow> heap option" where
  "str_list_append a x h = str_list_extend a [x] h"

definition list_append :: "addr \<Rightarrow> pyval \<Rightarrow> heap \<Rightarrow> heap option" where
  "list_append a x h =
     (case cells h a of
        Some (ListObj ys) \<Rightarrow> Some (set_cell a (ListObj (ys @ [x])) h)
      | _ \<Rightarrow> None)"

fun orphan_loop_h ::
  "string set \<Rightarrow> string set \<Rightarrow> WorkflowNode list \<Rightarrow> addr \<Rightarrow> heap \<Rightarrow> heap option" where
  "orphan_loop_h srcs tgts [] issues_ref h = Some h"
| "orphan_loop_h srcs tgts (node # rest) issues_ref h =
     (if node_type node \<notin> set [START, END] then
        (if node_id node \<notin> tgts \<and> node_id node \<notin> srcs
         then (case str_list_append issues_ref
                      (''Node '' @ apos @ name (config node) @ apos @ '' is not connected'') h of
                 None \<Rightarrow> None
               | Some h' \<Rightarrow> orphan_loop_h srcs tgts rest issues_ref h')
         else orphan_loop_h srcs tgts rest issues_ref h)
      else orphan_loop_h srcs tgts rest issues_ref h)"

fun config_loop_h :: "WorkflowNode list \<Rightarrow> addr \<Rightarrow> heap \<Rightarrow> heap option" where
  "config_loop_h [] issues_ref h = Some h"
| "config_loop_h (node # rest) issues_ref h =
     (case str_list_extend issues_ref (validate_node_config node) h of
        None \<Rightarrow> None
      | Some h' \<Rightarrow> config_loop_h rest issues_ref h')"

text \<open>
  \<open>validate_workflow\<close> on the workflow at address \<open>w\<close>: the address of the returned list and
  the heap the call leaves behind.
\<close>

definition validate_workflow_h :: "addr \<Rightarrow> heap \<Rightarrow> (addr \<times> heap) option" where
  "validate_workflow_h w h =
     (case cells h w of
        Some (WorkflowObj wfl) \<Rightarrow>
          (case alloc (StrListObj []) h of (issues_ref, h0) \<Rightarrow>
             (let start_nodes = filter (\<lambda>n. node_type n = START) (nodes wfl);
                  end_nodes = filter (\<lambda>n. node_type n = END) (nodes wfl)
              in case (if length start_nodes \<noteq> 1
                       then str_list_append issues_ref ''Workflow must have exactly one START node'' h0
                       else Some h0) of
                   None \<Rightarrow> None
                 | Some h1 \<Rightarrow>
                     (case (if length end_nodes = 0
                            then str_list_append issues_ref ''Workflow must have at least one END node'' h1
                            else Some h1) of
                        None \<Rightarrow> None
                      | Some h2 \<Rightarrow>
                          (let connection_sources = set (map source_node_id (connections wfl));
                               connection_targets = set (map target_node_id (connections wfl))
                           in case orphan_loop_h connection_sources connection_targets (nodes wfl) issues_ref h2 of
                                None \<Rightarrow> None
                              | Some h3 \<Rightarrow>
                                  (case config_loop_h (nodes wfl) issues_ref h3 of
                                     None \<Rightarrow> None
                                   | Some h4 \<Rightarrow> Some (issues_ref, h4))))))
      | _ \<Rightarrow> None)"

fun steps_loop_h :: "Settings \<Rightarrow> nat \<Rightarrow> WorkflowNode list \<Rightarrow> addr \<Rightarrow> heap \<Rightarrow> heap option" where
  "steps_loop_h settings i [] steps h = Some h"
| "steps_loop_h settings i (node # rest) steps h =
     (if node_type node = START then steps_loop_h settings (Suc i) rest steps h
      else if node_type node = END then
        (case list_append steps
                (PDict [(''end_step_'' @ str_nat i, PDict [(''return'', PStr ''${result}'')])]) h of
           None \<Rightarrow> None
         | Some h' \<Rightarrow> steps_loop_h settings (Suc i) rest steps h')
      else
        (case list_append steps
                (PDict [(''step_'' @ str_nat i, node_to_workflow_step settings node)]) h of
           None \<Rightarrow> None
         | Some h' \<Rightarrow> steps_loop_h settings (Suc i) rest steps h'))"

text \<open>
  \<open>_generate_basic_workflow_yaml\<close> of the service whose settings are at address \<open>svc\<close>, on
  the workflow at address \<open>w\<close>: the text returned by \<open>yaml.dump\<close> and the heap the call
  leaves behind.
\<close>

definition generate_basic_workflow_yaml_h ::
  "(pyval \<Rightarrow> string) \<Rightarrow> addr \<Rightarrow> addr \<Rightarrow> heap \<Rightarrow> (string \<times> heap) option" where
  "generate_basic_workflow_yaml_h dump svc w h =
     (case cells h svc of
        Some (SettingsObj settings) \<Rightarrow>
          (case cells h w of
             Some (WorkflowObj wfl) \<Rightarrow>
               (case alloc (ListObj []) h of (steps, h0) \<Rightarrow>
                  (case steps_loop_h settings 0 (nodes wfl) steps h0 of
                     None \<Rightarrow> None
                   | Some h1 \<Rightarrow>
                       (case cells h1 steps of
                          Some (ListObj xs) \<Rightarrow>
                            Some (dump (PDict [(''main'', PDict [(''steps'', PList xs)])]), h1)
                        | _ \<Rightarrow> None)))
           | _ \<Rightarrow> None)
      | _ \<Rightarrow> None)"

text \<open>The list of issues found at the address that a call of the validator returned.\<close>

definition issues_at :: "addr \<Rightarrow> heap \<Rightarrow> string list option" where
  "issues_at a h = (case cells h a of Some (StrListObj xs) \<Rightarrow> Some xs | _ \<Rightarrow> None)"

section \<open>Fenced-block extraction (app/services/ai_service.py)\<close>

subsection \<open>The string operations used\<close>

text \<open>The fence marker, three backticks.\<close>

definition fence :: string where
  "fence = [CHR 0x60, CHR 0x60, CHR 0x60]"

text \<open>
  The least index at which \<open>sub\<close> occurs in \<open>s\<close>, if it occurs: the search of
  \<open>sub in s\<close> and of \<open>s.find(sub)\<close>.
\<close>

fun find_idx :: "string \<Rightarrow> string \<Rightarrow> nat option" where
  "find_idx sub [] = (if sub = [] then Some 0 else None)"
| "find_idx sub (c # cs) =
     (if take (length sub) (c # cs) = sub then Some 0 else map_option Suc (find_idx sub cs))"

definition py_in :: "string \<Rightarrow> string \<Rightarrow> bool" where
  "py_in sub s = (find_idx sub s \<noteq> None)"

text \<open>\<open>s.find(sub, start)\<close> for \<open>start \<ge> 0\<close>: the index, or \<open>-1\<close> when there is none.\<close>

definition py_find :: "string \<Rightarrow> string \<Rightarrow> nat \<Rightarrow> int" where
  "py_find s sub start =
     (if length s < start then -1
      else case find_idx sub (drop start s) of None \<Rightarrow> -1 | Some k \<Rightarrow> int (start + k))"

text \<open>
  \<open>s[start:end]\<close>: a negative bound counts from the end of the string, and both bounds are
  clamped to the string.
\<close>

definition slice_bound :: "nat \<Rightarrow> int \<Rightarrow> nat" where
  "slice_bound n i = (if i < 0 then nat (max 0 (int n + i)) else min n (nat i))"

definition py_slice :: "string \<Rightarrow> int \<Rightarrow> int \<Rightarrow> string" where
  "py_slice s start end =
     (let b = slice_bound (length s) start; e = slice_bound (length s) end
      in take (e - b) (drop b s))"

text \<open>\<open>str.isspace\<close> on the code points below 256, and \<open>s.strip()\<close>.\<close>

definition is_space :: "char \<Rightarrow> bool" where
  "is_space c =
     (let n = of_char c :: nat
      in (9 \<le> n \<and> n \<le> 13) \<or> (28 \<le> n \<and> n \<le> 32) \<or> n = 133 \<or> n = 160)"

definition py_strip :: "string \<Rightarrow> string" where
  "py_strip s = rev (dropWhile is_space (rev (dropWhile is_space s)))"

subsection \<open>The three extraction functions\<close>

definition extract_yaml_from_response :: "string \<Rightarrow> string" where
  "extract_yaml_from_response response =
     (if py_in (fence @ ''yaml'') response then
        (let start = py_find response (fence @ ''yaml'') 0 + 7;
             end = py_find response fence (nat start)
         in py_strip (py_slice response start end))
      else if py_in fence response then
        (let start = py_find response fence 0 + 3;
             end = py_find response fence (nat start)
         in py_strip (py_slice response start end))
      else py_strip response)"

definition extract_code_from_response :: "string \<Rightarrow> string \<Rightarrow> string" where
  "extract_code_from_response response language =
     (let code_block = fence @ language
      in if py_in code_block response then
           (let start = py_find response code_block 0 + int (length code_block);
                end = py_find response fence (nat start)
            in py_strip (py_slice response start end))
         else if py_in fence response then
           (let start = py_find response fence 0 + 3;
                end = py_find response fence (nat start)
            in py_strip (py_slice response start end))
         else py_strip response)"

text \<open>
  The first half of \<open>_extract_json_from_response\<close>: the text \<open>json_str\<close> handed to the decoder.
\<close>

definition json_str_of :: "string \<Rightarrow> string" where
  "json_str_of response =
     (if py_in (fence @ ''json'') response then
        (let start = py_find response (fence @ ''json'') 0 + 7;
             end = py_find response fence (nat start)
         in py_strip (py_slice response start end))
      else if py_in fence response then
        (let start = py_find response fence 0 + 3;
             end = py_find response fence (nat start)
         in py_strip (py_slice response start end))
      else py_strip response)"

text \<open>
  \<open>json.loads\<close> is the standard library's decoder, taken as the parameter \<open>loads\<close>: it
  returns the decoded value or raises. On a text that is not JSON it raises
  \<open>JSONDecodeError\<close>; it also raises \<open>RecursionError\<close> on a text nested too deeply and a
  plain \<open>ValueError\<close> on an integer literal of more than 4300 digits. The \<open>except\<close> clause
  of \<open>_extract_json_from_response\<close> names \<open>json.JSONDecodeError\<close> only, so every other
  exception leaves the function.
\<close>

type_synonym decoder = "string \<Rightarrow> exn + pyval"

definition extract_json_from_response :: "decoder \<Rightarrow> string \<Rightarrow> exn + pyval" where
  "extract_json_from_response loads response =
     (let json_str = json_str_of response
      in case loads json_str of
           Inr v \<Rightarrow> Inr v
         | Inl (JSONDecodeError m) \<Rightarrow> Inr (PDict [(''raw_response'', PStr json_str)])
         | Inl e \<Rightarrow> Inl e)"

section \<open>Node enhancement and suggestion collection\<close>

text \<open>
  The external collaborator. \<open>enhance_node_configuration\<close> builds a prompt from the node
  and awaits \<open>_generate_content\<close>, which raises when the client is not configured or the
  remote call fails. Both steps together are the parameter \<open>ask\<close>: from the collaborator's
  state and the node to the response text or the exception raised, and the next state.
  The \<open>except Exception\<close> clause of \<open>enhance_node_configuration\<close> logs and re-raises, so an
  exception of the collaborator or of the extraction is the outcome of the call.
\<close>

type_synonym 's collaborator = "'s \<Rightarrow> WorkflowNode \<Rightarrow> (exn + string) \<times> 's"

definition enhance_node_configuration ::
  "'s collaborator \<Rightarrow> decoder \<Rightarrow> 's \<Rightarrow> WorkflowNode \<Rightarrow> (exn + pyval) \<times> 's" where
  "enhance_node_configuration ask loads s node =
     (case ask s node of
        (Inl e, s') \<Rightarrow> (Inl e, s')
      | (Inr response, s') \<Rightarrow> (extract_json_from_response loads response, s'))"







section \<open>The generate endpoint (app/api/v1/endpoints/workflows.py)\<close>

record WorkflowGenerationRequest =
  workflow :: Workflow
  target_format :: string
  include_deployment :: bool
  ai_enhance :: bool

text \<open>
  The handler body. The awaited \<open>workflow_service.generate_workflow_code(request)\<close> is the
  parameter \<open>generate\<close> (its response or the exception it raises), and \<open>str(e)\<close> on an
  exception is the parameter \<open>str_exn\<close>. The \<open>raise HTTPException(status_code=400, ...)\<close>
  stands inside the \<open>try\<close> whose handler is \<open>except Exception\<close>, and \<open>HTTPException\<close> is an
  \<open>Exception\<close>.
\<close>

definition generate_workflow_code_handler ::
  "(WorkflowGenerationRequest \<Rightarrow> exn + 'r) \<Rightarrow> (exn \<Rightarrow> string) \<Rightarrow> WorkflowGenerationRequest
     \<Rightarrow> 'r http_result" where
  "generate_workflow_code_handler generate str_exn request =
     (let try_body =
        (let validation_issues = validate_workflow (workflow request)
         in if validation_issues \<noteq> []
            then Inl (HTTPException 400 ''Workflow validation failed'' validation_issues)
            else generate request)
      in case try_body of
           Inr response \<Rightarrow> Response200 response
         | Inl e \<Rightarrow> Raised (HTTPExceptionStr 500 (str_exn e)))"

section \<open>Notions used in the statements\<close>

text \<open>The issue texts of the two cardinality checks.\<close>

abbreviation start_issue :: string where
  "start_issue \<equiv> ''Workflow must have exactly one START node''"

abbreviation end_issue :: string where
  "end_issue \<equiv> ''Workflow must have at least one END node''"

text \<open>
  The text that the connectivity check appends for a node, and the nodes it appends it for:
  neither Start nor End, and the id among neither the connection sources nor the targets.
\<close>

definition not_connected_issue :: "WorkflowNode \<Rightarrow> string" where
  "not_connected_issue node = ''Node '' @ apos @ name (config node) @ apos @ '' is not connected''"

definition orphaned :: "Workflow \<Rightarrow> WorkflowNode \<Rightarrow> bool" where
  "orphaned w node =
     (node_type node \<noteq> START \<and> node_type node \<noteq> END
      \<and> node_id node \<notin> set (map target_node_id (connections w))
      \<and> node_id node \<notin> set (map source_node_id (connections w)))"

text \<open>An issue is a connectivity issue when it has the shape \<open>Node '...' is not connected\<close>.\<close>

definition is_connectivity_issue :: "string \<Rightarrow> bool" where
  "is_connectivity_issue s =
     (take 6 s = ''Node '' @ apos \<and> 24 \<le> length s
      \<and> drop (length s - 18) s = apos @ '' is not connected'')"

text \<open>The keys of a step, which is a dictionary.\<close>

definition dict_keys :: "pyval \<Rightarrow> string list" where
  "dict_keys v = (case v of PDict kvs \<Rightarrow> map fst kvs | _ \<Rightarrow> [])"

text \<open>
  Occurrences of a substring, stated without the search: \<open>sub\<close> occurs in \<open>s\<close> at index
  \<open>k\<close>, and it occurs there for the first time.
\<close>

definition occurs_at :: "string \<Rightarrow> string \<Rightarrow> nat \<Rightarrow> bool" where
  "occurs_at sub s k = (k + length sub \<le> length s \<and> take (length sub) (drop k s) = sub)"

definition first_at :: "string \<Rightarrow> string \<Rightarrow> nat \<Rightarrow> bool" where
  "first_at sub s k = (occurs_at sub s k \<and> (\<forall>j<k. \<not> occurs_at sub s j))"

text \<open>
  The content hint of the first fenced block of a response: the text that follows the first
  fence marker, up to the first white space.
\<close>

definition first_block_tag :: "string \<Rightarrow> string option" where
  "first_block_tag r =
     (case find_idx fence r of
        None \<Rightarrow> None
      | Some i \<Rightarrow> Some (takeWhile (\<lambda>c. \<not> is_space c) (drop (i + 3) r)))"

section \<open>Sample values\<close>

text \<open>A configuration with the class's defaults: every optional field \<open>None\<close>, the method \<open>GET\<close>.\<close>

definition default_config :: "string \<Rightarrow> WorkflowNodeConfig" where
  "default_config nm =
     \<lparr>name = nm, description = None, function_name = None, service_name = None,
      topic_name = None, subscription_name = None, url = None, http_method = Some ''GET'',
      headers = None, body = None, condition = None, delay_seconds = None, ai_prompt = None\<rparr>"

definition mk_node :: "string \<Rightarrow> WorkflowNodeType \<Rightarrow> WorkflowNodeConfig \<Rightarrow> WorkflowNode" where
  "mk_node i t c = \<lparr>node_id = i, node_type = t, config = c, inputs = [], outputs = []\<rparr>"

definition mk_conn :: "string \<Rightarrow> string \<Rightarrow> string \<Rightarrow> WorkflowConnection" where
  "mk_conn i s t = \<lparr>conn_id = i, source_node_id = s, target_node_id = t, conn_condition = None\<rparr>"

definition test_metadata :: WorkflowMetadata where
  "test_metadata =
     \<lparr>meta_name = ''test-workflow'', meta_description = Some ''Test workflow'', version = ''1.0.0'',
      tags = [], project_id = None, region = ''us-central1''\<rparr>"

definition start_1 :: WorkflowNode where
  "start_1 = mk_node ''start-1'' START (default_config ''Start'')"

definition end_1 :: WorkflowNode where
  "end_1 = mk_node ''end-1'' END (default_config ''End'')"

definition func_1 :: WorkflowNode where
  "func_1 = mk_node ''func-1'' CLOUD_FUNCTION
     ((default_config ''Process Data'')\<lparr>function_name := Some ''process-data''\<rparr>)"

definition func_2 :: WorkflowNode where
  "func_2 = mk_node ''func-2'' CLOUD_FUNCTION
     ((default_config ''Transform Data'')\<lparr>function_name := Some ''transform-data''\<rparr>)"

text \<open>Start and End connected, one Cloud Function node left out of every connection.\<close>

definition wf_one_orphan :: Workflow where
  "wf_one_orphan =
     \<lparr>wf_id = ''test-workflow'', metadata = test_metadata, nodes = [start_1, func_1, end_1],
      connections = [mk_conn ''conn-1'' ''start-1'' ''end-1'']\<rparr>"

text \<open>The same with a second Cloud Function node left out as well.\<close>

definition wf_two_orphans :: Workflow where
  "wf_two_orphans =
     \<lparr>wf_id = ''test-workflow'', metadata = test_metadata, nodes = [start_1, func_1, func_2, end_1],
      connections = [mk_conn ''conn-1'' ''start-1'' ''end-1'']\<rparr>"

text \<open>Start directly connected to End, and settings without a project.\<close>

definition wf_start_end :: Workflow where
  "wf_start_end =
     \<lparr>wf_id = ''test-workflow'', metadata = test_metadata, nodes = [start_1, end_1],
      connections = [mk_conn ''conn-1'' ''start-1'' ''end-1'']\<rparr>"

definition no_project :: Settings where
  "no_project = \<lparr>GOOGLE_CLOUD_PROJECT = None\<rparr>"

text \<open>A generation request for the workflow with one orphaned node, enrichment off.\<close>

definition request_one_orphan :: WorkflowGenerationRequest where
  "request_one_orphan =
     \<lparr>workflow = wf_one_orphan, target_format = ''yaml'', include_deployment = True, ai_enhance = False\<rparr>"

text \<open>
  Two Cloud Function nodes that carry a generation hint, and a workflow in which both are
  connected.
\<close>

definition hinted_1 :: WorkflowNode where
  "hinted_1 = mk_node ''func-1'' CLOUD_FUNCTION
     ((default_config ''Process Data'')
        \<lparr>function_name := Some ''process-data'', ai_prompt := Some ''Parse the payload''\<rparr>)"



text \<open>
  The JSON text \<open>{"suggestions": ["Use retries"]}\<close>, the text of 4301 digits \<open>1\<close>, and a
  decoder for the examples. It decodes the first text as \<open>json.loads\<close> does, raises the
  \<open>ValueError\<close> of \<open>json.loads\<close> on the second, and raises \<open>JSONDecodeError\<close> on every other
  text, among them \<open>not json\<close>, on which \<open>json.loads\<close> raises it too.
\<close>

definition suggestions_text :: string where
  "suggestions_text =
     ''{'' @ [CHR 0x22] @ ''suggestions'' @ [CHR 0x22] @ '': ['' @ [CHR 0x22] @ ''Use retries'' @ [CHR 0x22] @ '']}''"

definition big_int_text :: string where
  "big_int_text = replicate 4301 (CHR ''1'')"

definition sample_loads :: decoder where
  "sample_loads t =
     (if t = suggestions_text then Inr (PDict [(''suggestions'', PList [PStr ''Use retries''])])
      else if t = big_int_text
      then Inl (ValueError ''Exceeds the limit (4300 digits) for integer string conversion'')
      else Inl (JSONDecodeError ''Expecting value''))"

text \<open>
  Collaborators for the examples; their state counts the calls made. The first answers every
  call with the same text; the second raises for the node \<open>func-1\<close> and answers the
  suggestions text for every other node.
\<close>

definition always_reply :: "string \<Rightarrow> nat collaborator" where
  "always_reply t s node = (Inr t, Suc s)"

definition fail_on_func_1 :: "nat collaborator" where
  "fail_on_func_1 s node =
     (if node_id node = ''func-1'' then (Inl (RuntimeError ''Gemini API not configured''), Suc s)
      else (Inr suggestions_text, Suc s))"

text \<open>A response whose only fenced block is tagged \<open>python3\<close>; \<open>nl\<close> is the line feed.\<close>

abbreviation nl :: string where
  "nl \<equiv> [CHR 0x0A]"

definition response_python3 :: string where
  "response_python3 = fence @ ''python3'' @ nl @ ''print(1)'' @ nl @ fence"

text \<open>A response with a block tagged \<open>python\<close> between two sentences.\<close>

definition response_python :: string where
  "response_python =
     ''Here is the code:'' @ nl @ fence @ ''python'' @ nl @ ''print(1)'' @ nl @ fence @ nl @ ''Done.''"

text \<open>A response whose only block carries no tag, and a response without any fence.\<close>

definition response_untagged :: string where
  "response_untagged = fence @ nl @ ''a: b'' @ nl @ fence"

definition response_plain :: string where
  "response_plain = '' a: b ''"

text \<open>
  A heap holding the workflow with one orphaned node at address 0 and settings without a
  project at address 1, and a stand-in for \<open>yaml.dump\<close> in the examples: it prints the
  step keys of a step-document, one per line.
\<close>

definition sample_heap :: heap where
  "sample_heap =
     \<lparr>cells = [0 \<mapsto> WorkflowObj wf_one_orphan, 1 \<mapsto> SettingsObj no_project], next_free = 2\<rparr>"

definition sample_dump :: "pyval \<Rightarrow> string" where
  "sample_dump v =
     (case v of
        PDict [(m, PDict [(s, PList xs)])] \<Rightarrow> concat (map (\<lambda>x. concat (dict_keys x) @ nl) xs)
      | _ \<Rightarrow> [])"

lemmas base_defs =
  default_config_def mk_node_def mk_conn_def test_metadata_def start_1_def end_1_def

section \<open>The validator as a concatenation\<close>

lemma orphan_loop_append:
  "orphan_loop srcs tgts ns acc =
     acc @ map not_connected_issue
       (filter (\<lambda>n. node_type n \<noteq> START \<and> node_type n \<noteq> END \<and> node_id n \<notin> tgts \<and> node_id n \<notin> srcs) ns)"
  by (induction ns arbitrary: acc) (simp_all add: not_connected_issue_def)

lemma config_loop_append:
  "config_loop ns acc = acc @ concat (map validate_node_config ns)"
  by (induction ns arbitrary: acc) simp_all

lemma validate_workflow_parts:
  "validate_workflow w =
     (if length (filter (\<lambda>n. node_type n = START) (nodes w)) \<noteq> 1 then [start_issue] else [])
     @ (if length (filter (\<lambda>n. node_type n = END) (nodes w)) = 0 then [end_issue] else [])
     @ map not_connected_issue (filter (orphaned w) (nodes w))
     @ concat (map validate_node_config (nodes w))"
proof -
  have "orphaned w = (\<lambda>n. node_type n \<noteq> START \<and> node_type n \<noteq> END
          \<and> node_id n \<notin> set (map target_node_id (connections w))
          \<and> node_id n \<notin> set (map source_node_id (connections w)))"
    by (rule ext) (simp add: orphaned_def)
  then show ?thesis
    by (simp add: validate_workflow_def Let_def orphan_loop_append config_loop_append)
qed

section \<open>Which issue comes from which check\<close>

lemma start_issue_not_config: "start_issue \<notin> set (validate_node_config n)"
  by (simp add: validate_node_config_def)

lemma end_issue_not_config: "end_issue \<notin> set (validate_node_config n)"
  by (simp add: validate_node_config_def)

lemma not_connectivity_config: "s \<in> set (validate_node_config n) \<Longrightarrow> \<not> is_connectivity_issue s"
  by (auto simp: validate_node_config_def is_connectivity_issue_def split: if_splits)

lemma connectivity_not_connected: "is_connectivity_issue (not_connected_issue n)"
  by (simp add: is_connectivity_issue_def not_connected_issue_def)

lemma start_issue_iff:
  "start_issue \<in> set (validate_workflow w) \<longleftrightarrow> length (filter (\<lambda>n. node_type n = START) (nodes w)) \<noteq> 1"
  by (auto simp: validate_workflow_parts not_connected_issue_def start_issue_not_config)

lemma end_issue_iff:
  "end_issue \<in> set (validate_workflow w) \<longleftrightarrow> length (filter (\<lambda>n. node_type n = END) (nodes w)) = 0"
  by (auto simp: validate_workflow_parts not_connected_issue_def end_issue_not_config)

lemma connectivity_issues_of_validate:
  "filter is_connectivity_issue (validate_workflow w) = map not_connected_issue (filter (orphaned w) (nodes w))"
proof -
  have a: "filter is_connectivity_issue (concat (map validate_node_config ns)) = []" for ns
    by (induction ns) (auto simp: filter_empty_conv not_connectivity_config)
  have b: "filter is_connectivity_issue (map not_connected_issue ns) = map not_connected_issue ns" for ns
    by (induction ns) (simp_all add: connectivity_not_connected)
  have c: "\<not> is_connectivity_issue start_issue" "\<not> is_connectivity_issue end_issue"
    by (simp_all add: is_connectivity_issue_def)
  show ?thesis
    by (simp add: validate_workflow_parts a b c)
qed

section \<open>Workflows with zero nodes\<close>

text \<open>
  C5. On a workflow value with zero nodes the validator returns the missing-Start issue and
  the missing-End issue, and nothing else. The validate endpoint, however, never reports
  \<open>is_valid = false\<close> for a body with zero nodes: the body is turned into a \<open>Workflow\<close>
  first, the constructor's validator raises on the empty node list, and the request is
  answered with the rejection of the body, whatever the id, the metadata and the connections.
  The repository's test \<open>test_validate_workflow_missing_nodes\<close> posts exactly such a body and
  expects status 200 with \<open>is_valid\<close> false.
\<close>

theorem validate_endpoint_zero_nodes:
  "post_validate i m [] cs = RequestValidationError (ValueError ''Workflow must have at least one node'')
   \<and> validate_workflow \<lparr>wf_id = i, metadata = m, nodes = [], connections = cs\<rparr> = [start_issue, end_issue]"
  by (simp add: post_validate_def Workflow_init_def validate_nodes_def validate_workflow_def)

section \<open>Constructed workflows\<close>

text \<open>
  C10. The constructor succeeds exactly on a non-empty node list with exactly one Start node
  and at least one End node, and rejects every other shape. The workflow it returns carries
  that node list, so the validator produces neither the Start-cardinality issue nor the
  End-cardinality issue for it.
\<close>

theorem Workflow_init_shape:
  "((\<exists>w. Workflow_init i m ns cs = Inr w) \<longleftrightarrow>
      (ns \<noteq> [] \<and> length (filter (\<lambda>n. node_type n = START) ns) = 1
       \<and> 1 \<le> length (filter (\<lambda>n. node_type n = END) ns)))
   \<and> (\<forall>w. Workflow_init i m ns cs = Inr w \<longrightarrow>
        nodes w = ns \<and> start_issue \<notin> set (validate_workflow w) \<and> end_issue \<notin> set (validate_workflow w))"
proof -
  have "Workflow_init i m ns cs = Inr w \<Longrightarrow>
      nodes w = ns \<and> ns \<noteq> [] \<and> length (filter (\<lambda>n. node_type n = START) ns) = 1
       \<and> 1 \<le> length (filter (\<lambda>n. node_type n = END) ns)" for w
    by (auto simp: Workflow_init_def validate_nodes_def Let_def Suc_le_eq split: if_splits)
  moreover have "ns \<noteq> [] \<Longrightarrow> length (filter (\<lambda>n. node_type n = START) ns) = 1
       \<Longrightarrow> 1 \<le> length (filter (\<lambda>n. node_type n = END) ns) \<Longrightarrow> \<exists>w. Workflow_init i m ns cs = Inr w"
    by (auto simp: Workflow_init_def validate_nodes_def Let_def)
  ultimately show ?thesis
    by (auto simp: start_issue_iff end_issue_iff)
qed

theorem Workflow_init_shape_witness:
  "Workflow_init ''test-workflow'' test_metadata [start_1, end_1] [mk_conn ''conn-1'' ''start-1'' ''end-1'']
     = Inr \<lparr>wf_id = ''test-workflow'', metadata = test_metadata, nodes = [start_1, end_1],
            connections = [mk_conn ''conn-1'' ''start-1'' ''end-1'']\<rparr>
   \<and> start_issue \<notin> set (validate_workflow \<lparr>wf_id = ''test-workflow'', metadata = test_metadata, nodes = [start_1, end_1],
            connections = [mk_conn ''conn-1'' ''start-1'' ''end-1'']\<rparr>)
   \<and> end_issue \<notin> set (validate_workflow \<lparr>wf_id = ''test-workflow'', metadata = test_metadata, nodes = [start_1, end_1],
            connections = [mk_conn ''conn-1'' ''start-1'' ''end-1'']\<rparr>)"
proof -
  have init: "Workflow_init ''test-workflow'' test_metadata [start_1, end_1] [mk_conn ''conn-1'' ''start-1'' ''end-1'']
     = Inr \<lparr>wf_id = ''test-workflow'', metadata = test_metadata, nodes = [start_1, end_1],
            connections = [mk_conn ''conn-1'' ''start-1'' ''end-1'']\<rparr>"
    by (simp add: Workflow_init_def validate_nodes_def start_1_def end_1_def mk_node_def)
  from Workflow_init_shape [of "''test-workflow''" test_metadata "[start_1, end_1]"
      "[mk_conn ''conn-1'' ''start-1'' ''end-1'']"] init
  show ?thesis by simp
qed

section \<open>Orphan detection\<close>

text \<open>
  C9 as stated fails: the connectivity check reports every orphaned node, so a workflow
  with an orphaned Cloud Function node and a second orphaned node gets two connectivity
  issues, not exactly one.
\<close>

theorem orphan_single_issue_counterexample:
  "func_1 \<in> set (nodes wf_two_orphans) \<and> node_type func_1 = CLOUD_FUNCTION
   \<and> node_id func_1 \<notin> set (map source_node_id (connections wf_two_orphans))
   \<and> node_id func_1 \<notin> set (map target_node_id (connections wf_two_orphans))
   \<and> filter is_connectivity_issue (validate_workflow wf_two_orphans)
       = [''Node '' @ apos @ ''Process Data'' @ apos @ '' is not connected'',
          ''Node '' @ apos @ ''Transform Data'' @ apos @ '' is not connected'']"
  by (simp add: connectivity_issues_of_validate orphaned_def not_connected_issue_def
      wf_two_orphans_def func_1_def func_2_def base_defs)

text \<open>
  C9, amended. When a Cloud Function node whose id is neither source nor target of any
  connection is the only orphaned node of the workflow, validation produces exactly one
  connectivity issue, and that issue names the node's display name. (In general there is
  one connectivity issue per orphaned node, in node order: \<open>connectivity_issues_of_validate\<close>.)
\<close>

theorem single_orphan_single_issue:
  assumes "node \<in> set (nodes w)"
    and "node_type node = CLOUD_FUNCTION"
    and "node_id node \<notin> set (map source_node_id (connections w))"
    and "node_id node \<notin> set (map target_node_id (connections w))"
    and "filter (orphaned w) (nodes w) = [node]"
  shows "filter is_connectivity_issue (validate_workflow w)
           = [''Node '' @ apos @ name (config node) @ apos @ '' is not connected'']"
  using assms(5) by (simp add: connectivity_issues_of_validate not_connected_issue_def)

theorem single_orphan_single_issue_witness:
  "filter is_connectivity_issue (validate_workflow wf_one_orphan)
     = [''Node '' @ apos @ ''Process Data'' @ apos @ '' is not connected'']"
proof -
  have 1: "func_1 \<in> set (nodes wf_one_orphan)"
    by (simp add: wf_one_orphan_def)
  have 2: "node_type func_1 = CLOUD_FUNCTION"
    by (simp add: func_1_def mk_node_def)
  have 3: "node_id func_1 \<notin> set (map source_node_id (connections wf_one_orphan))"
    by (simp add: wf_one_orphan_def func_1_def base_defs)
  have 4: "node_id func_1 \<notin> set (map target_node_id (connections wf_one_orphan))"
    by (simp add: wf_one_orphan_def func_1_def base_defs)
  have 5: "filter (orphaned wf_one_orphan) (nodes wf_one_orphan) = [func_1]"
    by (simp add: orphaned_def wf_one_orphan_def func_1_def base_defs)
  have "name (config func_1) = ''Process Data''"
    by (simp add: func_1_def mk_node_def default_config_def)
  with single_orphan_single_issue [OF 1 2 3 4 5] show ?thesis by simp
qed

section \<open>The step compiler as a map over the enumerated nodes\<close>

lemma steps_loop_append:
  "steps_loop settings i ns acc =
     acc @ map (\<lambda>(j, n).
                 if node_type n = END
                 then PDict [(''end_step_'' @ str_nat j, PDict [(''return'', PStr ''${result}'')])]
                 else PDict [(''step_'' @ str_nat j, node_to_workflow_step settings n)])
             (filter (\<lambda>(j, n). node_type n \<noteq> START) (enumerate i ns))"
  by (induction ns arbitrary: i acc) simp_all

lemma length_filter_enumerate:
  "length (filter (\<lambda>(j, n). P n) (enumerate i ns)) = length (filter P ns)"
  by (induction ns arbitrary: i) simp_all

text \<open>
  C3 as stated fails: the step emitted for an End node is keyed \<open>end_step_<index>\<close>.
  For Start directly connected to End the only emitted step has the key \<open>end_step_1\<close>,
  which does not begin with \<open>step_\<close>.
\<close>

theorem step_key_counterexample:
  "map dict_keys (workflow_steps no_project wf_start_end) = [[''end_step_1'']]
   \<and> take 5 ''end_step_1'' \<noteq> ''step_''"
  by (simp add: workflow_steps_def wf_start_end_def start_1_def end_1_def mk_node_def
      dict_keys_def str_nat.simps digit_char_def)

text \<open>
  C3, amended. Every step emitted by the deterministic compiler has exactly one key. For a
  node at position \<open>i\<close> of the workflow's node sequence (Start nodes counted), the key is
  \<open>end_step_<i>\<close> when the node is an End node and \<open>step_<i>\<close> otherwise; no emitted step
  carries a key of any other shape.
\<close>

theorem step_keys_positional:
  "map dict_keys (workflow_steps settings w) =
     map (\<lambda>(i, n). [if node_type n = END then ''end_step_'' @ str_nat i else ''step_'' @ str_nat i])
       (filter (\<lambda>(i, n). node_type n \<noteq> START) (enumerate 0 (nodes w)))"
  by (simp add: workflow_steps_def steps_loop_append dict_keys_def split_def)

text \<open>
  C7. The deterministic compiler goes through the nodes in the order of the workflow's node
  sequence. It emits nothing for a Start node, the step \<open>{"return": "${result}"}\<close> for an End
  node, and the step of \<open>_node_to_workflow_step\<close> for every other node: the step list is the
  image of the non-Start nodes, in node order, and has one entry per non-Start node.
\<close>

theorem steps_one_per_non_start_node:
  "workflow_steps settings w =
     map (\<lambda>(i, n).
            if node_type n = END
            then PDict [(''end_step_'' @ str_nat i, PDict [(''return'', PStr ''${result}'')])]
            else PDict [(''step_'' @ str_nat i, node_to_workflow_step settings n)])
       (filter (\<lambda>(i, n). node_type n \<noteq> START) (enumerate 0 (nodes w)))
   \<and> length (workflow_steps settings w) = length (filter (\<lambda>n. node_type n \<noteq> START) (nodes w))
   \<and> workflow_def settings w = PDict [(''main'', PDict [(''steps'', PList (workflow_steps settings w))])]"
  by (simp add: workflow_steps_def workflow_def_def steps_loop_append length_filter_enumerate)

section \<open>Repeated calls\<close>

lemma cells_set_cell: "cells (set_cell a v h) = (cells h)(a \<mapsto> v)"
  by (simp add: set_cell_def)

lemma next_free_set_cell: "next_free (set_cell a v h) = next_free h"
  by (simp add: set_cell_def)

lemma set_cell_twice: "set_cell a v (set_cell a u h) = set_cell a v h"
  by (simp add: set_cell_def)

lemma set_cell_same: "cells h a = Some v \<Longrightarrow> set_cell a v h = h"
  by (simp add: set_cell_def fun_upd_idem)

lemma set_cell_next_free:
  "set_cell a v (h\<lparr>next_free := n\<rparr>) = (set_cell a v h)\<lparr>next_free := n\<rparr>"
  by (simp add: set_cell_def)

lemma cells_next_free_update: "cells (h\<lparr>next_free := n\<rparr>) = cells h"
  by simp

lemma str_list_extend_eq:
  "cells h a = Some (StrListObj ys) \<Longrightarrow>
     str_list_extend a xs h = Some (set_cell a (StrListObj (ys @ xs)) h)"
  by (simp add: str_list_extend_def)

lemma list_append_eq:
  "cells h a = Some (ListObj ys) \<Longrightarrow> list_append a x h = Some (set_cell a (ListObj (ys @ [x])) h)"
  by (simp add: list_append_def)

lemma orphan_loop_h_eq:
  "cells h a = Some (StrListObj ys) \<Longrightarrow>
     orphan_loop_h srcs tgts ns a h = Some (set_cell a (StrListObj (orphan_loop srcs tgts ns ys)) h)"
proof (induction ns arbitrary: h ys)
  case Nil
  then show ?case by (simp add: set_cell_same)
next
  case (Cons node rest)
  have step: "str_list_append a x h = Some (set_cell a (StrListObj (ys @ [x])) h)" for x
    using Cons.prems by (simp add: str_list_append_def str_list_extend_eq)
  have app: "orphan_loop_h srcs tgts rest a (set_cell a (StrListObj (ys @ [x])) h)
               = Some (set_cell a (StrListObj (orphan_loop srcs tgts rest (ys @ [x]))) h)" for x
  proof -
    have "cells (set_cell a (StrListObj (ys @ [x])) h) a = Some (StrListObj (ys @ [x]))"
      by (simp add: cells_set_cell)
    then show ?thesis
      using Cons.IH [of "set_cell a (StrListObj (ys @ [x])) h" "ys @ [x]"]
      by (simp add: set_cell_twice)
  qed
  have skip: "orphan_loop_h srcs tgts rest a h
                = Some (set_cell a (StrListObj (orphan_loop srcs tgts rest ys)) h)"
    using Cons.prems by (rule Cons.IH)
  show ?case by (simp add: step app skip)
qed

lemma config_loop_h_eq:
  "cells h a = Some (StrListObj ys) \<Longrightarrow>
     config_loop_h ns a h = Some (set_cell a (StrListObj (config_loop ns ys)) h)"
proof (induction ns arbitrary: h ys)
  case Nil
  then show ?case by (simp add: set_cell_same)
next
  case (Cons node rest)
  let ?zs = "ys @ validate_node_config node"
  have step: "str_list_extend a (validate_node_config node) h = Some (set_cell a (StrListObj ?zs) h)"
    using Cons.prems by (rule str_list_extend_eq)
  have "cells (set_cell a (StrListObj ?zs) h) a = Some (StrListObj ?zs)"
    by (simp add: cells_set_cell)
  then have app: "config_loop_h rest a (set_cell a (StrListObj ?zs) h)
                    = Some (set_cell a (StrListObj (config_loop rest ?zs)) h)"
    using Cons.IH [of "set_cell a (StrListObj ?zs) h" ?zs]
    by (simp add: set_cell_twice)
  show ?case by (simp add: step app)
qed

lemma steps_loop_h_eq:
  "cells h a = Some (ListObj ys) \<Longrightarrow>
     steps_loop_h settings i ns a h = Some (set_cell a (ListObj (steps_loop settings i ns ys)) h)"
proof (induction ns arbitrary: h ys i)
  case Nil
  then show ?case by (simp add: set_cell_same)
next
  case (Cons node rest)
  have app: "steps_loop_h settings (Suc i) rest a (set_cell a (ListObj (ys @ [x])) h)
               = Some (set_cell a (ListObj (steps_loop settings (Suc i) rest (ys @ [x]))) h)" for x
  proof -
    have "cells (set_cell a (ListObj (ys @ [x])) h) a = Some (ListObj (ys @ [x]))"
      by (simp add: cells_set_cell)
    then show ?thesis
      using Cons.IH [of "set_cell a (ListObj (ys @ [x])) h" "ys @ [x]" "Suc i"]
      by (simp add: set_cell_twice)
  qed
  have skip: "steps_loop_h settings (Suc i) rest a h
                = Some (set_cell a (ListObj (steps_loop settings (Suc i) rest ys)) h)"
    using Cons.prems by (rule Cons.IH)
  show ?case
    by (simp add: list_append_eq [OF Cons.prems] app skip)
qed

lemma validate_workflow_h_eq:
  assumes "cells h w = Some (WorkflowObj wfl)"
  shows "validate_workflow_h w h
           = Some (next_free h,
               (set_cell (next_free h) (StrListObj (validate_workflow wfl)) h)
                 \<lparr>next_free := Suc (next_free h)\<rparr>)"
proof -
  let ?a = "next_free h"
  define hb where "hb = h\<lparr>next_free := Suc ?a\<rparr>"
  have al: "alloc (StrListObj []) h = (?a, set_cell ?a (StrListObj []) hb)"
    by (simp add: alloc_def hb_def set_cell_next_free)
  have at: "cells (set_cell ?a (StrListObj zs) hb) ?a = Some (StrListObj zs)" for zs
    by (simp add: cells_set_cell)
  have app: "str_list_append ?a x (set_cell ?a (StrListObj zs) hb)
               = Some (set_cell ?a (StrListObj (zs @ [x])) hb)" for x zs
    by (simp add: str_list_append_def str_list_extend_eq [OF at] set_cell_twice)
  have orph: "orphan_loop_h srcs tgts ns ?a (set_cell ?a (StrListObj zs) hb)
                = Some (set_cell ?a (StrListObj (orphan_loop srcs tgts ns zs)) hb)" for srcs tgts ns zs
    by (simp add: orphan_loop_h_eq [OF at] set_cell_twice)
  have conf: "config_loop_h ns ?a (set_cell ?a (StrListObj zs) hb)
                = Some (set_cell ?a (StrListObj (config_loop ns zs)) hb)" for ns zs
    by (simp add: config_loop_h_eq [OF at] set_cell_twice)
  have fin: "set_cell ?a v hb = (set_cell ?a v h)\<lparr>next_free := Suc ?a\<rparr>" for v
    by (simp add: hb_def set_cell_next_free)
  have "validate_workflow_h w h = Some (?a, set_cell ?a (StrListObj (validate_workflow wfl)) hb)"
    using assms
    by (simp add: validate_workflow_h_def validate_workflow_def Let_def al app orph conf)
  then show ?thesis by (simp only: fin)
qed

lemma generate_basic_workflow_yaml_h_eq:
  assumes "cells h svc = Some (SettingsObj settings)" and "cells h w = Some (WorkflowObj wfl)"
  shows "generate_basic_workflow_yaml_h dump svc w h
           = Some (generate_basic_workflow_yaml dump settings wfl,
               (set_cell (next_free h) (ListObj (workflow_steps settings wfl)) h)
                 \<lparr>next_free := Suc (next_free h)\<rparr>)"
proof -
  let ?a = "next_free h"
  define hb where "hb = h\<lparr>next_free := Suc ?a\<rparr>"
  have al: "alloc (ListObj []) h = (?a, set_cell ?a (ListObj []) hb)"
    by (simp add: alloc_def hb_def set_cell_next_free)
  have c0: "cells (set_cell ?a (ListObj []) hb) ?a = Some (ListObj [])"
    by (simp add: cells_set_cell)
  have s1: "steps_loop_h settings 0 (nodes wfl) ?a (set_cell ?a (ListObj []) hb)
              = Some (set_cell ?a (ListObj (workflow_steps settings wfl)) hb)"
    using steps_loop_h_eq [OF c0, of settings 0 "nodes wfl"]
    by (simp add: set_cell_twice workflow_steps_def)
  have c1: "cells (set_cell ?a (ListObj (workflow_steps settings wfl)) hb) ?a
              = Some (ListObj (workflow_steps settings wfl))"
    by (simp add: cells_set_cell)
  have fin: "set_cell ?a (ListObj (workflow_steps settings wfl)) hb
               = (set_cell ?a (ListObj (workflow_steps settings wfl)) h)\<lparr>next_free := Suc ?a\<rparr>"
    by (simp add: hb_def set_cell_next_free)
  have "generate_basic_workflow_yaml_h dump svc w h
          = Some (generate_basic_workflow_yaml dump settings wfl,
                  set_cell ?a (ListObj (workflow_steps settings wfl)) hb)"
    using assms
    by (simp add: generate_basic_workflow_yaml_h_def al s1 c1
        generate_basic_workflow_yaml_def workflow_def_def)
  then show ?thesis by (simp only: fin)
qed

text \<open>
  C8. Take a heap that holds a workflow and the settings of the service among its allocated
  objects. Two calls of the validator in a row on the workflow both return, and the two
  lists they return hold the same issues. Two calls of the deterministic compiler in a row
  both return, with the same document text. After either pair of calls every object that was
  allocated before the first call, the workflow and the settings among them, is what it was:
  the calls change nothing but the lists they allocate themselves.
\<close>

theorem validate_and_compile_repeatable:
  assumes "cells h w = Some (WorkflowObj wfl)"
    and "cells h svc = Some (SettingsObj settings)"
    and "w < next_free h"
    and "svc < next_free h"
  shows "(case validate_workflow_h w h of
            None \<Rightarrow> False
          | Some (a1, h1) \<Rightarrow>
              (case validate_workflow_h w h1 of
                 None \<Rightarrow> False
               | Some (a2, h2) \<Rightarrow>
                   issues_at a1 h1 = Some (validate_workflow wfl)
                   \<and> issues_at a2 h2 = issues_at a1 h1
                   \<and> issues_at a1 h2 = issues_at a1 h1
                   \<and> (\<forall>a<next_free h. cells h2 a = cells h a)))
       \<and> (case generate_basic_workflow_yaml_h dump svc w h of
            None \<Rightarrow> False
          | Some (y1, h1) \<Rightarrow>
              (case generate_basic_workflow_yaml_h dump svc w h1 of
                 None \<Rightarrow> False
               | Some (y2, h2) \<Rightarrow>
                   y1 = generate_basic_workflow_yaml dump settings wfl
                   \<and> y2 = y1
                   \<and> (\<forall>a<next_free h. cells h2 a = cells h a)))"
proof -
  let ?a = "next_free h"
  let ?v1 = "(set_cell ?a (StrListObj (validate_workflow wfl)) h)\<lparr>next_free := Suc ?a\<rparr>"
  let ?g1 = "(set_cell ?a (ListObj (workflow_steps settings wfl)) h)\<lparr>next_free := Suc ?a\<rparr>"
  have v1: "validate_workflow_h w h = Some (?a, ?v1)"
    using assms(1) by (rule validate_workflow_h_eq)
  have wv: "cells ?v1 w = Some (WorkflowObj wfl)"
    using assms(1,3) by (simp add: cells_set_cell)
  have nv: "next_free ?v1 = Suc ?a" by simp
  have v2: "validate_workflow_h w ?v1
              = Some (Suc ?a, (set_cell (Suc ?a) (StrListObj (validate_workflow wfl)) ?v1)
                                \<lparr>next_free := Suc (Suc ?a)\<rparr>)"
    using validate_workflow_h_eq [OF wv] by (simp only: nv)
  have g1: "generate_basic_workflow_yaml_h dump svc w h
              = Some (generate_basic_workflow_yaml dump settings wfl, ?g1)"
    using assms(2,1) by (rule generate_basic_workflow_yaml_h_eq)
  have sg: "cells ?g1 svc = Some (SettingsObj settings)"
    using assms(2,4) by (simp add: cells_set_cell)
  have wg: "cells ?g1 w = Some (WorkflowObj wfl)"
    using assms(1,3) by (simp add: cells_set_cell)
  have ng: "next_free ?g1 = Suc ?a" by simp
  have g2: "generate_basic_workflow_yaml_h dump svc w ?g1
              = Some (generate_basic_workflow_yaml dump settings wfl,
                  (set_cell (Suc ?a) (ListObj (workflow_steps settings wfl)) ?g1)
                    \<lparr>next_free := Suc (Suc ?a)\<rparr>)"
    using generate_basic_workflow_yaml_h_eq [OF sg wg] by (simp only: ng)
  show ?thesis
    by (simp add: v1 v2 g1 g2 issues_at_def cells_set_cell)
qed

theorem validate_and_compile_repeatable_witness:
  "((case validate_workflow_h 0 sample_heap of
       None \<Rightarrow> False
     | Some (a1, h1) \<Rightarrow>
         (case validate_workflow_h 0 h1 of
            None \<Rightarrow> False
          | Some (a2, h2) \<Rightarrow>
              issues_at a1 h1 = Some (validate_workflow wf_one_orphan)
              \<and> issues_at a2 h2 = issues_at a1 h1
              \<and> issues_at a1 h2 = issues_at a1 h1
              \<and> (\<forall>a<next_free sample_heap. cells h2 a = cells sample_heap a)))
    \<and> (case generate_basic_workflow_yaml_h sample_dump 1 0 sample_heap of
         None \<Rightarrow> False
       | Some (y1, h1) \<Rightarrow>
           (case generate_basic_workflow_yaml_h sample_dump 1 0 h1 of
              None \<Rightarrow> False
            | Some (y2, h2) \<Rightarrow>
                y1 = generate_basic_workflow_yaml sample_dump no_project wf_one_orphan
                \<and> y2 = y1
                \<and> (\<forall>a<next_free sample_heap. cells h2 a = cells sample_heap a))))
   \<and> validate_workflow wf_one_orphan = [''Node '' @ apos @ ''Process Data'' @ apos @ '' is not connected'']
   \<and> generate_basic_workflow_yaml sample_dump no_project wf_one_orphan
       = ''step_1'' @ nl @ ''end_step_2'' @ nl"
proof -
  have 1: "cells sample_heap 0 = Some (WorkflowObj wf_one_orphan)"
    by (simp add: sample_heap_def)
  have 2: "cells sample_heap 1 = Some (SettingsObj no_project)"
    by (simp add: sample_heap_def)
  have 3: "0 < next_free sample_heap" "1 < next_free sample_heap"
    by (simp_all add: sample_heap_def)
  have v: "validate_workflow wf_one_orphan
             = [''Node '' @ apos @ ''Process Data'' @ apos @ '' is not connected'']"
    by (simp add: validate_workflow_parts orphaned_def not_connected_issue_def
        validate_node_config_def truthy_str_def wf_one_orphan_def func_1_def base_defs)
  have g: "generate_basic_workflow_yaml sample_dump no_project wf_one_orphan
             = ''step_1'' @ nl @ ''end_step_2'' @ nl"
    by (simp add: generate_basic_workflow_yaml_def workflow_def_def workflow_steps_def
        sample_dump_def dict_keys_def str_nat.simps digit_char_def
        wf_one_orphan_def func_1_def base_defs)
  from validate_and_compile_repeatable [OF 1 2 3, of sample_dump] v g
  show ?thesis by blast
qed

section \<open>Rejection by the generate endpoint\<close>

text \<open>
  C1. The workflow with one orphaned Cloud Function node can be constructed and fails
  validation with one issue. The generate handler raises the 400 exception with the message
  and the issue list inside its own \<open>try\<close>, whose \<open>except Exception\<close> catches it: the
  request is answered with status 500 and the detail string \<open>str(e)\<close>, for every service
  and every rendering \<open>str\<close> of exceptions.
\<close>

theorem generate_rejection_is_500:
  "Workflow_init (wf_id wf_one_orphan) (metadata wf_one_orphan) (nodes wf_one_orphan)
       (connections wf_one_orphan) = Inr wf_one_orphan
   \<and> validate_workflow (workflow request_one_orphan)
       = [''Node '' @ apos @ ''Process Data'' @ apos @ '' is not connected'']
   \<and> generate_workflow_code_handler generate str_exn request_one_orphan
       = Raised (HTTPExceptionStr 500
           (str_exn (HTTPException 400 ''Workflow validation failed''
              [''Node '' @ apos @ ''Process Data'' @ apos @ '' is not connected''])))"
proof -
  have v: "validate_workflow wf_one_orphan
             = [''Node '' @ apos @ ''Process Data'' @ apos @ '' is not connected'']"
    by (simp add: validate_workflow_parts orphaned_def not_connected_issue_def
        validate_node_config_def truthy_str_def wf_one_orphan_def func_1_def base_defs)
  have i: "Workflow_init (wf_id wf_one_orphan) (metadata wf_one_orphan) (nodes wf_one_orphan)
       (connections wf_one_orphan) = Inr wf_one_orphan"
    by (simp add: Workflow_init_def validate_nodes_def wf_one_orphan_def func_1_def base_defs)
  show ?thesis
    using v i by (simp add: generate_workflow_code_handler_def request_one_orphan_def)
qed

section \<open>Unparsable collaborator output\<close>

lemma json_str_of_not_json: "json_str_of ''not json'' = ''not json''"
  by (simp add: json_str_of_def py_in_def fence_def py_strip_def is_space_def)

lemma find_idx_replicate:
  "sub \<noteq> [] \<Longrightarrow> hd sub \<noteq> c \<Longrightarrow> find_idx sub (replicate n c) = None"
  by (induction n) (auto simp: neq_Nil_conv)

lemma py_strip_digits: "py_strip (replicate n (CHR ''1'')) = replicate n (CHR ''1'')"
  by (simp add: py_strip_def is_space_def)

lemma json_str_of_big_int_text: "json_str_of big_int_text = big_int_text"
proof -
  have "\<not> py_in (fence @ ''json'') big_int_text" "\<not> py_in fence big_int_text"
    by (simp_all add: py_in_def big_int_text_def find_idx_replicate fence_def)
  moreover have "py_strip big_int_text = big_int_text"
    unfolding big_int_text_def by (rule py_strip_digits)
  ultimately show ?thesis by (simp add: json_str_of_def)
qed

lemma length_big_int_text: "length big_int_text = 4301"
  by (simp add: big_int_text_def)

lemma not_json_not_big: "''not json'' \<noteq> big_int_text"
proof
  assume "''not json'' = big_int_text"
  then have "length ''not json'' = length big_int_text" by (rule arg_cong)
  then show False by (simp add: length_big_int_text)
qed

lemma big_not_suggestions: "big_int_text \<noteq> suggestions_text"
proof
  assume "big_int_text = suggestions_text"
  then have "length big_int_text = length suggestions_text" by (rule arg_cong)
  then show False by (simp add: length_big_int_text suggestions_text_def)
qed

lemma sample_loads_not_json: "sample_loads ''not json'' = Inl (JSONDecodeError ''Expecting value'')"
proof -
  have "''not json'' \<noteq> suggestions_text" by (simp add: suggestions_text_def)
  then show ?thesis using not_json_not_big by (simp add: sample_loads_def)
qed

lemma sample_loads_big_int_text:
  "sample_loads big_int_text
     = Inl (ValueError ''Exceeds the limit (4300 digits) for integer string conversion'')"
  using big_not_suggestions by (simp add: sample_loads_def)

text \<open>
  C6 as stated fails: when the collaborator answers \<open>not json\<close>, on which the decoder raises
  \<open>JSONDecodeError\<close>, node-configuration enhancement does not fail; it returns a dictionary
  holding the text.
\<close>

theorem unparsable_json_counterexample:
  "sample_loads (json_str_of ''not json'') = Inl (JSONDecodeError ''Expecting value'')
   \<and> enhance_node_configuration (always_reply ''not json'') sample_loads 0 hinted_1
       = (Inr (PDict [(''raw_response'', PStr ''not json'')]), 1)"
  by (simp add: enhance_node_configuration_def extract_json_from_response_def
      json_str_of_not_json sample_loads_not_json always_reply_def)

text \<open>
  C6, amended. When structured JSON output was required and the decoder rejects the text
  extracted from the collaborator's response with \<open>JSONDecodeError\<close>, extraction returns the
  substitute value \<open>{"raw_response": <extracted text>}\<close> and node-configuration enhancement
  succeeds with that value instead of failing. When the decoder raises any other exception
  on the extracted text (as \<open>json.loads\<close> does on a text nested too deeply and on an integer
  literal of more than 4300 digits), extraction fails with that exception and so does the
  enhancement. The enhancement also fails, with the collaborator's exception, when the
  collaborator call fails.
\<close>

theorem unparsable_json_substitute:
  "(loads (json_str_of response) = Inl (JSONDecodeError m) \<longrightarrow>
      extract_json_from_response loads response
        = Inr (PDict [(''raw_response'', PStr (json_str_of response))])
      \<and> (ask s node = (Inr response, s') \<longrightarrow>
           enhance_node_configuration ask loads s node
             = (Inr (PDict [(''raw_response'', PStr (json_str_of response))]), s')))
   \<and> (loads (json_str_of response) = Inl e \<and> (\<forall>t. e \<noteq> JSONDecodeError t) \<longrightarrow>
      extract_json_from_response loads response = Inl e
      \<and> (ask s node = (Inr response, s') \<longrightarrow>
           enhance_node_configuration ask loads s node = (Inl e, s')))
   \<and> (ask s node = (Inl e, s') \<longrightarrow> enhance_node_configuration ask loads s node = (Inl e, s'))"
proof (intro conjI impI)
  assume "loads (json_str_of response) = Inl (JSONDecodeError m)"
  then show x: "extract_json_from_response loads response
        = Inr (PDict [(''raw_response'', PStr (json_str_of response))])"
    by (simp add: extract_json_from_response_def)
  assume "ask s node = (Inr response, s')"
  with x show "enhance_node_configuration ask loads s node
             = (Inr (PDict [(''raw_response'', PStr (json_str_of response))]), s')"
    by (simp add: enhance_node_configuration_def)
next
  assume h: "loads (json_str_of response) = Inl e \<and> (\<forall>t. e \<noteq> JSONDecodeError t)"
  then show x: "extract_json_from_response loads response = Inl e"
    by (cases e) (simp_all add: extract_json_from_response_def)
  assume "ask s node = (Inr response, s')"
  with x show "enhance_node_configuration ask loads s node = (Inl e, s')"
    by (simp add: enhance_node_configuration_def)
next
  assume "ask s node = (Inl e, s')"
  then show "enhance_node_configuration ask loads s node = (Inl e, s')"
    by (simp add: enhance_node_configuration_def)
qed

theorem unparsable_json_substitute_witness:
  "enhance_node_configuration (always_reply ''not json'') sample_loads 0 hinted_1
       = (Inr (PDict [(''raw_response'', PStr ''not json'')]), Suc 0)
   \<and> enhance_node_configuration (always_reply big_int_text) sample_loads 0 hinted_1
       = (Inl (ValueError ''Exceeds the limit (4300 digits) for integer string conversion''), Suc 0)
   \<and> enhance_node_configuration fail_on_func_1 sample_loads 0 hinted_1
       = (Inl (RuntimeError ''Gemini API not configured''), Suc 0)"
proof -
  have l1: "sample_loads (json_str_of ''not json'') = Inl (JSONDecodeError ''Expecting value'')"
    by (simp add: json_str_of_not_json sample_loads_not_json)
  have a1: "always_reply ''not json'' 0 hinted_1 = (Inr ''not json'', Suc 0)"
    by (simp add: always_reply_def)
  have l2: "sample_loads (json_str_of big_int_text)
              = Inl (ValueError ''Exceeds the limit (4300 digits) for integer string conversion'')"
    by (simp add: json_str_of_big_int_text sample_loads_big_int_text)
  have a2: "always_reply big_int_text 0 hinted_1 = (Inr big_int_text, Suc 0)"
    by (simp add: always_reply_def)
  have a3: "fail_on_func_1 0 hinted_1 = (Inl (RuntimeError ''Gemini API not configured''), Suc 0)"
    by (simp add: fail_on_func_1_def hinted_1_def mk_node_def)
  have 1: "enhance_node_configuration (always_reply ''not json'') sample_loads 0 hinted_1
       = (Inr (PDict [(''raw_response'', PStr ''not json'')]), Suc 0)"
    using unparsable_json_substitute
      [of sample_loads "''not json''" "''Expecting value''" "always_reply ''not json''" 0 hinted_1 "Suc 0"]
      l1 a1 by (simp add: json_str_of_not_json)
  have 2: "enhance_node_configuration (always_reply big_int_text) sample_loads 0 hinted_1
       = (Inl (ValueError ''Exceeds the limit (4300 digits) for integer string conversion''), Suc 0)"
    using unparsable_json_substitute
      [of sample_loads big_int_text _ "always_reply big_int_text" 0 hinted_1 "Suc 0"
          "ValueError ''Exceeds the limit (4300 digits) for integer string conversion''"]
      l2 a2 by simp
  have 3: "enhance_node_configuration fail_on_func_1 sample_loads 0 hinted_1
       = (Inl (RuntimeError ''Gemini API not configured''), Suc 0)"
    using unparsable_json_substitute
      [of sample_loads _ _ fail_on_func_1 0 hinted_1 "Suc 0" "RuntimeError ''Gemini API not configured''"]
      a3 by simp
  show ?thesis using 1 2 3 by simp
qed

section \<open>Suggestion collection\<close>





section \<open>The search and the slice, by occurrences\<close>

lemma occurs_at_Nil: "occurs_at sub [] k \<longleftrightarrow> k = 0 \<and> sub = []"
  by (auto simp: occurs_at_def)

lemma occurs_at_0: "occurs_at sub s 0 \<longleftrightarrow> take (length sub) s = sub"
proof -
  have "length sub \<le> length s" if "take (length sub) s = sub"
  proof -
    have "length (take (length sub) s) = length sub" using that by simp
    then show ?thesis by simp
  qed
  then show ?thesis by (auto simp: occurs_at_def)
qed

lemma occurs_at_Suc: "occurs_at sub (c # cs) (Suc k) \<longleftrightarrow> occurs_at sub cs k"
  by (simp add: occurs_at_def)

lemma find_idx_first_at: "find_idx sub s = Some k \<longleftrightarrow> first_at sub s k"
proof (induction s arbitrary: k)
  case Nil
  show ?case by (auto simp: first_at_def occurs_at_Nil)
next
  case (Cons c cs)
  show ?case
  proof (cases "take (length sub) (c # cs) = sub")
    case True
    then have "occurs_at sub (c # cs) 0" by (simp add: occurs_at_0)
    then have "first_at sub (c # cs) k \<longleftrightarrow> k = 0"
      by (cases k) (auto simp: first_at_def)
    with True show ?thesis by auto
  next
    case False
    then have no0: "\<not> occurs_at sub (c # cs) 0" by (simp add: occurs_at_0)
    show ?thesis
    proof (cases k)
      case 0
      with False no0 show ?thesis by (auto simp: first_at_def)
    next
      case (Suc k')
      have "first_at sub (c # cs) (Suc k') \<longleftrightarrow> first_at sub cs k'"
        using no0 by (simp add: first_at_def occurs_at_Suc All_less_Suc2)
      with False Suc Cons.IH [of k'] show ?thesis by auto
    qed
  qed
qed

lemma find_idx_None: "find_idx sub s = None \<longleftrightarrow> (\<forall>k. \<not> occurs_at sub s k)"
proof
  assume "find_idx sub s = None"
  show "\<forall>k. \<not> occurs_at sub s k"
  proof (rule ccontr)
    assume "\<not> (\<forall>k. \<not> occurs_at sub s k)"
    then obtain k where "occurs_at sub s k" by blast
    then obtain m where "occurs_at sub s m" "\<forall>j<m. \<not> occurs_at sub s j"
      by (metis (mono_tags, lifting) exists_least_iff)
    then have "find_idx sub s = Some m" by (simp add: find_idx_first_at first_at_def)
    with \<open>find_idx sub s = None\<close> show False by simp
  qed
next
  assume a: "\<forall>k. \<not> occurs_at sub s k"
  show "find_idx sub s = None"
  proof (cases "find_idx sub s")
    case None then show ?thesis .
  next
    case (Some k)
    then have "occurs_at sub s k" by (simp add: find_idx_first_at first_at_def)
    with a show ?thesis by blast
  qed
qed

lemma py_in_iff: "py_in sub s \<longleftrightarrow> (\<exists>k. occurs_at sub s k)"
  by (simp add: py_in_def find_idx_None)

lemma py_find_first_at:
  "start \<le> length s \<Longrightarrow> first_at sub (drop start s) n \<Longrightarrow> py_find s sub start = int (start + n)"
  by (simp add: py_find_def find_idx_first_at [symmetric])

lemma py_slice_nat:
  "b \<le> e \<Longrightarrow> e \<le> length s \<Longrightarrow> py_slice s (int b) (int e) = take (e - b) (drop b s)"
  by (simp add: py_slice_def slice_bound_def Let_def)


lemma occurs_at_append_left: "occurs_at (a @ b) s k \<Longrightarrow> occurs_at a s k"
proof -
  assume h: "occurs_at (a @ b) s k"
  then have "take (length a) (take (length a + length b) (drop k s)) = take (length a) (a @ b)"
    by (simp add: occurs_at_def)
  then have "take (length a) (drop k s) = a" by simp
  with h show ?thesis by (simp add: occurs_at_def)
qed

lemma extract_between:
  assumes m: "first_at marker response i"
    and f: "first_at fence (drop (i + length marker) response) n"
  shows "py_strip (py_slice response (py_find response marker 0 + int (length marker))
           (py_find response fence (nat (py_find response marker 0 + int (length marker)))))
         = py_strip (take n (drop (i + length marker) response))"
proof -
  from m have le: "i + length marker \<le> length response"
    by (simp add: first_at_def occurs_at_def)
  from f have le2: "n + length fence \<le> length response - (i + length marker)"
    by (simp add: first_at_def occurs_at_def)
  have a: "py_find response marker 0 = int i"
    using py_find_first_at [of 0 response marker i] m by simp
  have b: "py_find response fence (i + length marker) = int (i + length marker + n)"
    using py_find_first_at [OF le f] .
  have c: "py_slice response (int (i + length marker)) (int (i + length marker + n))
             = take n (drop (i + length marker) response)"
    using py_slice_nat [of "i + length marker" "i + length marker + n" response] le le2 by simp
  have d: "nat (int i + int (length marker)) = i + length marker" by simp
  show ?thesis
    unfolding a d b using c by simp
qed

section \<open>Fenced-block extraction\<close>

text \<open>
  C4 as stated fails. The only fenced block of the response below is tagged \<open>python3\<close>,
  not \<open>python\<close>. For the hint \<open>python\<close> extraction returns the text \<open>3\<close>, a line feed and
  \<open>print(1)\<close>: neither the block's interior \<open>print(1)\<close> nor the text between the
  fences, which begins with \<open>python3\<close>.
\<close>

theorem extraction_counterexample:
  "first_block_tag response_python3 = Some ''python3''
   \<and> extract_code_from_response response_python3 ''python'' = ''3'' @ nl @ ''print(1)''"
  by (simp add: first_block_tag_def extract_code_from_response_def response_python3_def fence_def
      py_in_def py_find_def py_slice_def slice_bound_def py_strip_def is_space_def Let_def)

text \<open>
  C4, amended. If the response contains the marker made of the fence and the expected
  content hint, and a fence after the first such marker, extraction returns the text between
  that marker and the next fence, trimmed. The marker is matched as a substring, so a longer
  tag that begins with the hint matches too and its remainder is part of the returned text.
  If the response does not contain that marker but contains a fence with a later fence,
  extraction returns the text between the first fence and the next one, trimmed, including
  any tag that follows the opening fence. If the response contains no fence at all,
  extraction returns the entire response trimmed. \<open>_extract_yaml_from_response\<close> is the
  same function for the hint \<open>yaml\<close>.
\<close>

theorem extraction_by_markers:
  "(first_at (fence @ language) response i
      \<and> first_at fence (drop (i + length (fence @ language)) response) n
     \<longrightarrow> extract_code_from_response response language
          = py_strip (take n (drop (i + length (fence @ language)) response)))
   \<and> ((\<forall>k. \<not> occurs_at (fence @ language) response k)
      \<and> first_at fence response i \<and> first_at fence (drop (i + 3) response) n
     \<longrightarrow> extract_code_from_response response language = py_strip (take n (drop (i + 3) response)))
   \<and> ((\<forall>k. \<not> occurs_at fence response k)
     \<longrightarrow> extract_code_from_response response language = py_strip response)
   \<and> extract_yaml_from_response response = extract_code_from_response response ''yaml''"
proof (intro conjI impI)
  assume h: "first_at (fence @ language) response i
      \<and> first_at fence (drop (i + length (fence @ language)) response) n"
  then have "py_in (fence @ language) response"
    by (auto simp: py_in_iff first_at_def)
  then show "extract_code_from_response response language
          = py_strip (take n (drop (i + length (fence @ language)) response))"
    using extract_between [of "fence @ language" response i n] h
    by (simp add: extract_code_from_response_def Let_def)
next
  assume h: "(\<forall>k. \<not> occurs_at (fence @ language) response k)
      \<and> first_at fence response i \<and> first_at fence (drop (i + 3) response) n"
  then have 1: "\<not> py_in (fence @ language) response" by (simp add: py_in_iff)
  from h have 2: "py_in fence response" by (auto simp: py_in_iff first_at_def)
  have 3: "length fence = 3" by (simp add: fence_def)
  show "extract_code_from_response response language = py_strip (take n (drop (i + 3) response))"
    using extract_between [of fence response i n] h 1 2 3
    by (simp add: extract_code_from_response_def Let_def)
next
  assume h: "\<forall>k. \<not> occurs_at fence response k"
  then have "\<forall>k. \<not> occurs_at (fence @ language) response k"
    using occurs_at_append_left by blast
  with h have "\<not> py_in fence response" "\<not> py_in (fence @ language) response"
    by (simp_all add: py_in_iff)
  then show "extract_code_from_response response language = py_strip response"
    by (simp add: extract_code_from_response_def Let_def)
next
  have "length (fence @ ''yaml'') = 7" by (simp add: fence_def)
  then show "extract_yaml_from_response response = extract_code_from_response response ''yaml''"
    by (simp add: extract_yaml_from_response_def extract_code_from_response_def Let_def)
qed

theorem extraction_by_markers_witness:
  "extract_code_from_response response_python ''python'' = ''print(1)''
   \<and> extract_code_from_response response_untagged ''yaml'' = ''a: b''
   \<and> extract_yaml_from_response response_untagged = ''a: b''
   \<and> extract_code_from_response response_plain ''yaml'' = ''a: b''"
proof -
  have m1: "first_at (fence @ ''python'') response_python 18"
    by (simp add: find_idx_first_at [symmetric] response_python_def fence_def)
  have f1: "first_at fence (drop (18 + length (fence @ ''python'')) response_python) 10"
    by (simp add: find_idx_first_at [symmetric] response_python_def fence_def)
  have r1: "py_strip (take 10 (drop (18 + length (fence @ ''python'')) response_python)) = ''print(1)''"
    by (simp add: response_python_def fence_def py_strip_def is_space_def)
  have a: "extract_code_from_response response_python ''python'' = ''print(1)''"
    using extraction_by_markers [of "''python''" response_python 18 10] m1 f1 r1 by simp
  have n2: "\<forall>k. \<not> occurs_at (fence @ ''yaml'') response_untagged k"
    by (simp add: find_idx_None [symmetric] response_untagged_def fence_def)
  have m2: "first_at fence response_untagged 0"
    by (simp add: find_idx_first_at [symmetric] response_untagged_def fence_def)
  have f2: "first_at fence (drop (0 + 3) response_untagged) 6"
    by (simp add: find_idx_first_at [symmetric] response_untagged_def fence_def)
  have r2: "py_strip (take 6 (drop (0 + 3) response_untagged)) = ''a: b''"
    by (simp add: response_untagged_def fence_def py_strip_def is_space_def)
  have b: "extract_code_from_response response_untagged ''yaml'' = ''a: b''"
    using extraction_by_markers [of "''yaml''" response_untagged 0 6] n2 m2 f2 r2 by simp
  have c: "extract_yaml_from_response response_untagged = ''a: b''"
    using extraction_by_markers [of "''yaml''" response_untagged 0 6] b by simp
  have n3: "\<forall>k. \<not> occurs_at fence response_plain k"
    by (simp add: find_idx_None [symmetric] response_plain_def fence_def)
  have r3: "py_strip response_plain = ''a: b''"
    by (simp add: response_plain_def py_strip_def is_space_def)
  have d: "extract_code_from_response response_plain ''yaml'' = ''a: b''"
    using extraction_by_markers [of "''yaml''" response_plain 0 0] n3 r3 by simp
  show ?thesis using a b c d by simp
qed

end
